theory Spec2Isabelle
  imports Main
begin

section \<open>The AI code reviewer (\<open>review.py\<close>): a shallow embedding\<close>

text \<open>
  \<open>review.py\<close> is a script: it reads a pull request through the GitHub client, sends text
  to a language model, prints the answer and, in comments mode, posts review comments.
  Its one pure function is \<open>get_file_line_from_diff\<close>.

  Strings. A Python \<open>str\<close> is a sequence of code points; here it is a \<open>string\<close>, and a
  \<open>char\<close> stands for a code point below 256. On these code points \<open>\d\<close> of the \<open>re\<close>
  module matches exactly \<open>0\<close> .. \<open>9\<close>, \<open>str.lower\<close> maps one character to one character,
  and \<open>str.splitlines\<close> breaks at the eight characters listed in \<open>is_linebreak\<close>.
  Integers are Python's unbounded integers (\<open>int\<close>); the interpreter's optional limit on
  the number of digits \<open>int()\<close> converts is a setting of the runtime and is not modelled.
\<close>

subsection \<open>The string operations the script uses\<close>

definition startswith :: "string \<Rightarrow> string \<Rightarrow> bool" where
  \<comment> \<open>\<open>s.startswith(p)\<close>\<close>
  "startswith s p = (take (length p) s = p)"

primrec str_in :: "string \<Rightarrow> string \<Rightarrow> bool" where
  \<comment> \<open>\<open>needle in hay\<close>\<close>
  "str_in needle [] = (needle = [])"
| "str_in needle (c # cs) = (startswith (c # cs) needle \<or> str_in needle cs)"

definition lower_char :: "char \<Rightarrow> char" where
  \<comment> \<open>\<open>A\<close>..\<open>Z\<close> and the capital letters \<open>0xC0\<close>..\<open>0xDE\<close> (not the sign \<open>0xD7\<close>) move up by 32\<close>
  "lower_char c =
     (let n = (of_char c :: nat)
      in if (65 \<le> n \<and> n \<le> 90) \<or> (192 \<le> n \<and> n \<le> 222 \<and> n \<noteq> 215)
         then char_of (n + 32) else c)"

definition lower :: "string \<Rightarrow> string" where
  \<comment> \<open>\<open>s.lower()\<close>\<close>
  "lower s = map lower_char s"

fun join :: "string \<Rightarrow> string list \<Rightarrow> string" where
  \<comment> \<open>\<open>sep.join(xs)\<close>\<close>
  "join sep [] = []"
| "join sep [x] = x"
| "join sep (x # y # ys) = x @ sep @ join sep (y # ys)"

definition is_digit :: "char \<Rightarrow> bool" where
  "is_digit c = (48 \<le> (of_char c :: nat) \<and> (of_char c :: nat) \<le> 57)"

definition py_int :: "string \<Rightarrow> int" where
  \<comment> \<open>\<open>int(s)\<close> for a string of decimal digits, which is all the script passes to it\<close>
  "py_int s = foldl (\<lambda>a c. 10 * a + (int (of_char c) - 48)) 0 s"

fun str_nat :: "nat \<Rightarrow> string" where
  "str_nat n =
     (if n < 10 then [char_of (48 + n)] else str_nat (n div 10) @ [char_of (48 + n mod 10)])"

definition str_int :: "int \<Rightarrow> string" where
  \<comment> \<open>how an f-string renders an integer\<close>
  "str_int i = (if i < 0 then ''-'' @ str_nat (nat (- i)) else str_nat (nat i))"

definition is_linebreak :: "char \<Rightarrow> bool" where
  \<comment> \<open>the line boundaries of \<open>str.splitlines\<close> below 256:
      LF, VT, FF, CR, FS, GS, RS and NEL\<close>
  "is_linebreak c =
     (c \<in> set [CHR 0x0A, CHR 0x0B, CHR 0x0C, CHR 0x0D, CHR 0x1C, CHR 0x1D, CHR 0x1E, CHR 0x85])"

fun splitlines_from :: "string \<Rightarrow> string \<Rightarrow> string list" where
  \<comment> \<open>\<open>cur\<close> holds the characters of the line being read; CR LF is one boundary; a
      boundary at the very end opens no further line\<close>
  "splitlines_from cur [] = (if cur = [] then [] else [cur])"
| "splitlines_from cur (c # cs) =
     (if c = CHR 0x0D \<and> cs \<noteq> [] \<and> hd cs = CHR 0x0A then cur # splitlines_from [] (tl cs)
      else if is_linebreak c then cur # splitlines_from [] cs
      else splitlines_from (cur @ [c]) cs)"

definition splitlines :: "string \<Rightarrow> string list" where
  \<comment> \<open>\<open>s.splitlines()\<close>\<close>
  "splitlines s = splitlines_from [] s"

subsection \<open>The hunk-header pattern\<close>

text \<open>
  \<open>re.match(r"@@ -(\d+),(\d+) \+(\d+),(\d+) @@", line)\<close> matches at the start of the line
  and says nothing about what follows the match. The pattern is a sequence of literal
  texts and of groups \<open>(\d+)\<close>. A group is greedy: it first takes every digit there is and
  gives digits back one at a time while the rest of the pattern fails, which is the order
  in which \<open>re_match\<close> tries the lengths. A match returns the text of its groups.
\<close>

datatype tok = Lit string | Digits

primrec first_some :: "'a option list \<Rightarrow> 'a option" where
  "first_some [] = None"
| "first_some (x # xs) = (case x of Some y \<Rightarrow> Some y | None \<Rightarrow> first_some xs)"

fun re_match :: "tok list \<Rightarrow> string \<Rightarrow> string list option" where
  "re_match [] s = Some []"
| "re_match (Lit l # ts) s =
     (if startswith s l then re_match ts (drop (length l) s) else None)"
| "re_match (Digits # ts) s =
     first_some (map (\<lambda>n. map_option (Cons (take n s)) (re_match ts (drop n s)))
                     (rev [1..<Suc (length (takeWhile is_digit s))]))"

definition hunk_re :: "tok list" where
  "hunk_re =
     [Lit ''@@ -'', Digits, Lit '','', Digits, Lit '' +'', Digits, Lit '','', Digits, Lit '' @@'']"

subsection \<open>\<open>get_file_line_from_diff\<close>\<close>

text \<open>
  \<^verbatim>\<open>
  def get_file_line_from_diff(diff):
      lines = diff.splitlines()
      for i, line in enumerate(lines):
          if line.startswith("@@"):
              match = re.match(r"@@ -(\d+),(\d+) \+(\d+),(\d+) @@", line)
              if match:
                  new_start = int(match.group(3))
                  for j, diff_line in enumerate(lines[i+1:], start=1):
                      if diff_line.startswith("+") and not diff_line.startswith("+++"):
                          return new_start + j - 1
      return 1
  \<close>
  \<open>new_start_of line\<close> is what the two tests and the conversion give for one line: the
  third group as a number, or nothing. \<open>first_added\<close> is the inner loop over
  \<open>lines[i+1:]\<close> with its counter \<open>j\<close>. \<open>scan_lines\<close> is the outer loop: at line \<open>i\<close>
  its argument is \<open>lines[i:]\<close>, so the tail of the argument is \<open>lines[i+1:]\<close>. When the
  inner loop ends without a return the outer loop goes on with the next line.
\<close>

definition new_start_of :: "string \<Rightarrow> int option" where
  "new_start_of line =
     (if startswith line ''@@''
      then (case re_match hunk_re line of
              Some groups \<Rightarrow> Some (py_int (groups ! 2))
            | None \<Rightarrow> None)
      else None)"

definition is_added :: "string \<Rightarrow> bool" where
  "is_added diff_line = (startswith diff_line ''+'' \<and> \<not> startswith diff_line ''+++'')"

primrec first_added :: "string list \<Rightarrow> int \<Rightarrow> int option" where
  "first_added [] j = None"
| "first_added (diff_line # rest) j =
     (if is_added diff_line then Some j else first_added rest (j + 1))"

primrec scan_lines :: "string list \<Rightarrow> int" where
  "scan_lines [] = 1"
| "scan_lines (line # rest) =
     (case new_start_of line of
        Some new_start \<Rightarrow>
          (case first_added rest 1 of
             Some j \<Rightarrow> new_start + j - 1
           | None \<Rightarrow> scan_lines rest)
      | None \<Rightarrow> scan_lines rest)"

definition get_file_line_from_diff :: "string \<Rightarrow> int" where
  "get_file_line_from_diff diff = scan_lines (splitlines diff)"

text \<open>
  The specification speaks of the first hunk of a patch. In its glossary a hunk is the
  block of lines that a header \<open>@@ -a,b +c,d @@\<close> introduces; \<open>first_hunk\<close> follows these
  words: the lines after the first header of the exact form, up to the next line that
  starts with \<open>@@\<close>. The code has no such notion.
\<close>

primrec after_first_header :: "string list \<Rightarrow> string list" where
  "after_first_header [] = []"
| "after_first_header (line # rest) =
     (if new_start_of line \<noteq> None then rest else after_first_header rest)"

definition first_hunk :: "string list \<Rightarrow> string list" where
  "first_hunk ls = takeWhile (\<lambda>l. \<not> startswith l ''@@'') (after_first_header ls)"

subsection \<open>The run of the script\<close>

text \<open>
  The command line is parsed by \<open>argparse\<close> before anything else; a usage error, \<open>--help\<close>
  and \<open>--version\<close> end the process there. The model starts from the parsed arguments.
\<close>

datatype mode = General | Issues | Comments

datatype llm_name = Chatgpt | Gemini | Grok

record args =
  repository :: string
  pr_number :: int
  mode :: mode
  full_context :: bool
  llm :: llm_name
  deep :: bool
  debug :: bool

text \<open>
  What the GitHub client returns for the pull request: \<open>pr.title\<close> and \<open>pr.body\<close> may be
  \<open>None\<close>, and so may \<open>file.patch\<close> (a binary file has none). The script calls
  \<open>pr.get_files()\<close> once to build the content and once more in comments mode; the model
  reads one snapshot of the pull request for the whole run.
\<close>

record changed_file =
  filename :: string
  patch :: "string option"

record pull_request =
  title :: "string option"
  body :: "string option"
  state :: string
  head_sha :: string
  get_files :: "changed_file list"

text \<open>
  A run is observed through its calls to the two collaborators and its printed lines, in
  the order in which they happen.
\<close>

datatype event =
    GetRepo string
  | GetPull int
  | LlmInit llm_name bool bool
  | GetFiles
  | GetContents string string
  | GetCommit string
  | GenerateReview string mode
  | CreateReviewComment string string string int string
  | Print string

text \<open>
  The collaborators. \<open>get_contents w path ref\<close> is the decoded text of a file at a commit.
  The language model promises nothing about its answers, and a comment may be refused
  for any reason, so both answer as functions of the whole interaction so far, the call
  being answered included as its last event. \<open>create_review_comment\<close> answers \<open>None\<close>
  when the comment is created and \<open>Some m\<close> when the call raises an exception \<open>e\<close> of
  class \<open>Exception\<close>, which is what the handler \<open>except Exception\<close> catches, with
  \<open>str(e) = m\<close>. The reads and the model calls have no handler in the script: an exception
  there ends the process, and the model describes the runs in which they return.
\<close>

record world =
  pr :: pull_request
  get_contents :: "string \<Rightarrow> string \<Rightarrow> string"
  generate_review :: "event list \<Rightarrow> string"
  create_review_comment :: "event list \<Rightarrow> string option"

datatype exit = Exit_ok | Uncaught string string

primrec exit_code :: "exit \<Rightarrow> int" where
  \<comment> \<open>the interpreter ends with status 1 after an uncaught exception\<close>
  "exit_code Exit_ok = 0"
| "exit_code (Uncaught cls msg) = 1"

primrec truthy :: "string option \<Rightarrow> bool" where
  \<comment> \<open>\<open>None\<close> and the empty string are false\<close>
  "truthy None = False"
| "truthy (Some s) = (s \<noteq> [])"

definition py_or :: "string option \<Rightarrow> string \<Rightarrow> string" where
  \<comment> \<open>\<open>x or d\<close>\<close>
  "py_or x d = (case x of None \<Rightarrow> d | Some s \<Rightarrow> (if s = [] then d else s))"

definition the_patch :: "changed_file \<Rightarrow> string" where
  "the_patch f = (case patch f of None \<Rightarrow> [] | Some p \<Rightarrow> p)"

definition patched :: "changed_file list \<Rightarrow> changed_file list" where
  \<comment> \<open>\<open>for file in pr.get_files(): if file.patch\<close>\<close>
  "patched fs = filter (\<lambda>f. truthy (patch f)) fs"

definition pr_title :: "pull_request \<Rightarrow> string" where
  "pr_title p = py_or (title p) ''No title provided''"

definition pr_description :: "pull_request \<Rightarrow> string" where
  "pr_description p = py_or (body p) ''No description provided''"

definition base_content :: "pull_request \<Rightarrow> string" where
  "base_content p =
     ''PR Title: '' @ pr_title p @ ''\<newline>PR Description:\<newline>'' @ pr_description p
       @ ''\<newline>\<newline>''"

definition dashes :: string where
  \<comment> \<open>\<open>"-" * 16\<close>\<close>
  "dashes = replicate 16 (CHR ''-'')"

definition diff_content :: "args \<Rightarrow> world \<Rightarrow> string" where
  "diff_content a w =
     (if full_context a
      then join ''\<newline>\<newline>''
             (map (\<lambda>f. ''File: '' @ filename f @ ''\<newline>''
                          @ get_contents w (filename f) (head_sha (pr w))
                          @ ''\<newline>\<newline>Diff:\<newline>'' @ the_patch f @ ''\<newline>'' @ dashes)
                  (patched (get_files (pr w))))
      else join ''\<newline>''
             (map (\<lambda>f. the_patch f @ ''\<newline>'' @ dashes) (patched (get_files (pr w)))))"

definition content :: "args \<Rightarrow> world \<Rightarrow> string" where
  "content a w =
     base_content (pr w) @
       (case mode a of
          General \<Rightarrow> ''Diffs:\<newline>'' @ diff_content a w
        | Issues \<Rightarrow> ''Diffs:\<newline>'' @ diff_content a w
        | Comments \<Rightarrow> ''Diffs:\<newline>'' @ diff_content a w)"

definition prepare :: "args \<Rightarrow> world \<Rightarrow> event list" where
  \<comment> \<open>the calls made while the content is built\<close>
  "prepare a w =
     GetFiles #
       (if full_context a
        then map (\<lambda>f. GetContents (filename f) (head_sha (pr w))) (patched (get_files (pr w)))
        else [])"

definition chunk :: "args \<Rightarrow> world \<Rightarrow> changed_file \<Rightarrow> string" where
  "chunk a w f =
     (if full_context a
      then ''File: '' @ filename f @ ''\<newline>'' @ get_contents w (filename f) (head_sha (pr w))
             @ ''\<newline>\<newline>Diff:\<newline>'' @ the_patch f
      else the_patch f)"

text \<open>
  One turn of the loop over the changed files in comments mode: it takes the events so
  far and returns them with those of this file appended.
  \<^verbatim>\<open>
  if file.patch:
      file_content = repo.get_contents(...) if args.full_context else ""
      diff = file.patch
      chunk = f"File: ..." if args.full_context else diff
      file_review = llm.generate_review(chunk, args.mode)
      if file_review and "no feedback" not in file_review.lower():
          line_num = get_file_line_from_diff(diff)
          comment = f"AI Issue: {file_review}"
          try:
              pr.create_review_comment(body=comment, commit=head_commit,
                                       path=file.filename, line=line_num, side="RIGHT")
              print(f"Posted comment on {file.filename} at line {line_num}: {comment}")
          except Exception as e:
              print(f"Error posting comment on {file.filename}: {str(e)}")
  \<close>
\<close>

definition asked :: "args \<Rightarrow> world \<Rightarrow> changed_file \<Rightarrow> event list \<Rightarrow> event list" where
  \<comment> \<open>the events up to and including the model call for this file\<close>
  "asked a w f tr =
     (if full_context a then tr @ [GetContents (filename f) (head_sha (pr w))] else tr)
       @ [GenerateReview (chunk a w f) (mode a)]"

definition file_review :: "args \<Rightarrow> world \<Rightarrow> changed_file \<Rightarrow> event list \<Rightarrow> string" where
  "file_review a w f tr = generate_review w (asked a w f tr)"

definition review_comment :: "args \<Rightarrow> world \<Rightarrow> changed_file \<Rightarrow> event list \<Rightarrow> event" where
  "review_comment a w f tr =
     CreateReviewComment (''AI Issue: '' @ file_review a w f tr) (head_sha (pr w)) (filename f)
       (get_file_line_from_diff (the_patch f)) ''RIGHT''"

definition file_step :: "args \<Rightarrow> world \<Rightarrow> changed_file \<Rightarrow> event list \<Rightarrow> event list" where
  "file_step a w f tr =
     (if truthy (patch f) then
        (if file_review a w f tr \<noteq> [] \<and> \<not> str_in ''no feedback'' (lower (file_review a w f tr))
         then
           (let line_num = get_file_line_from_diff (the_patch f);
                comment = ''AI Issue: '' @ file_review a w f tr;
                tr' = asked a w f tr @ [review_comment a w f tr]
            in case create_review_comment w tr' of
                 None \<Rightarrow>
                   tr' @ [Print (''Posted comment on '' @ filename f @ '' at line ''
                                   @ str_int line_num @ '': '' @ comment)]
               | Some e \<Rightarrow>
                   tr' @ [Print (''Error posting comment on '' @ filename f @ '': '' @ e)])
         else asked a w f tr)
      else tr)"

primrec comments_loop :: "args \<Rightarrow> world \<Rightarrow> changed_file list \<Rightarrow> event list \<Rightarrow> event list" where
  \<comment> \<open>\<open>for file in pr.get_files(): ...\<close>\<close>
  "comments_loop a w [] tr = tr"
| "comments_loop a w (f # fs) tr = comments_loop a w fs (file_step a w f tr)"

text \<open>
  The script from the token check on. \<open>token\<close> is \<open>os.getenv("GITHUB_TOKEN")\<close>. The result
  is the events of the run and how the process ends. \<open>pr_level\<close> is the run up to the
  model call for the whole pull request, \<open>review_text\<close> the answer to it, and
  \<open>loop_start\<close> the run up to the loop over the files in comments mode
  (\<open>head_commit = repo.get_commit(pr.head.sha)\<close>, then \<open>pr.get_files()\<close>).
\<close>

definition pr_level :: "args \<Rightarrow> world \<Rightarrow> event list" where
  "pr_level a w =
     [GetRepo (repository a), GetPull (pr_number a), LlmInit (llm a) (debug a) (deep a)]
       @ prepare a w @ [GenerateReview (content a w) (mode a)]"

definition review_text :: "args \<Rightarrow> world \<Rightarrow> string" where
  "review_text a w = generate_review w (pr_level a w)"

definition loop_start :: "args \<Rightarrow> world \<Rightarrow> event list" where
  "loop_start a w =
     pr_level a w @ [Print (''Code Issues:\<newline>'' @ review_text a w),
                    GetCommit (head_sha (pr w)), GetFiles]"

definition run :: "args \<Rightarrow> string option \<Rightarrow> world \<Rightarrow> event list \<times> exit" where
  "run a token w =
     (if \<not> truthy token
      then ([], Uncaught ''ValueError'' ''GITHUB_TOKEN environment variable is required'')
      else
        (case mode a of
           General \<Rightarrow> pr_level a w @ [Print (''General PR Review:\<newline>'' @ review_text a w)]
         | Issues \<Rightarrow> pr_level a w @ [Print (''Code Issues:\<newline>'' @ review_text a w)]
         | Comments \<Rightarrow>
             (if state (pr w) = ''open''
              then comments_loop a w (get_files (pr w)) (loop_start a w)
              else pr_level a w @ [Print (''Code Issues:\<newline>'' @ review_text a w),
                                  Print ''Comments mode: PR is closed, no comments posted.'']),
         Exit_ok))"

text \<open>What a run shows: the model calls, the comment calls and the printed lines.\<close>

primrec llm_calls :: "event list \<Rightarrow> (string \<times> mode) list" where
  "llm_calls [] = []"
| "llm_calls (e # es) =
     (case e of GenerateReview c m \<Rightarrow> (c, m) # llm_calls es | _ \<Rightarrow> llm_calls es)"

primrec comment_calls :: "event list \<Rightarrow> event list" where
  "comment_calls [] = []"
| "comment_calls (e # es) =
     (case e of CreateReviewComment b c p l s \<Rightarrow> e # comment_calls es | _ \<Rightarrow> comment_calls es)"

primrec printed :: "event list \<Rightarrow> string list" where
  "printed [] = []"
| "printed (e # es) = (case e of Print s \<Rightarrow> s # printed es | _ \<Rightarrow> printed es)"

subsection \<open>A small pull request to run the script on\<close>

definition demo_args :: "mode \<Rightarrow> args" where
  "demo_args m =
     \<lparr>repository = ''octo/demo'', pr_number = 7, mode = m, full_context = False,
      llm = Chatgpt, deep = False, debug = False\<rparr>"

definition demo_patch :: string where
  "demo_patch = ''@@ -1,2 +1,3 @@\<newline> x\<newline>+y''"

definition demo_file :: changed_file where
  "demo_file = \<lparr>filename = ''a.py'', patch = Some demo_patch\<rparr>"

definition demo_pr :: "string \<Rightarrow> pull_request" where
  "demo_pr st =
     \<lparr>title = Some ''Fix parser'', body = None, state = st, head_sha = ''c0ffee'',
      get_files = [demo_file, \<lparr>filename = ''logo.png'', patch = None\<rparr>,
                   \<lparr>filename = ''b.py'', patch = Some ''@@ -5 +5 @@\<newline>-z\<newline>+w''\<rparr>]\<rparr>"

definition demo_world :: "string \<Rightarrow> string \<Rightarrow> string option \<Rightarrow> world" where
  \<comment> \<open>the state of the pull request, what the model answers, how a comment call ends\<close>
  "demo_world st answer refusal =
     \<lparr>pr = demo_pr st, get_contents = (\<lambda>path ref. ''x\<newline>y\<newline>''),
      generate_review = (\<lambda>tr. answer), create_review_comment = (\<lambda>tr. refusal)\<rparr>"

section \<open>The line locator\<close>

subsection \<open>The two loops\<close>

lemma first_added_none: "\<forall>l\<in>set ls. \<not> is_added l \<Longrightarrow> first_added ls j = None"
  by (induction ls arbitrary: j) simp_all

lemma first_added_found:
  "\<forall>l\<in>set mid. \<not> is_added l \<Longrightarrow> is_added a \<Longrightarrow>
     first_added (mid @ a # post) j = Some (j + int (length mid))"
  by (induction mid arbitrary: j) simp_all

lemma scan_lines_skip:
  "\<forall>l\<in>set pre. new_start_of l = None \<Longrightarrow> scan_lines (pre @ ls) = scan_lines ls"
  by (induction pre) simp_all

lemma scan_lines_no_added: "\<forall>l\<in>set ls. \<not> is_added l \<Longrightarrow> scan_lines ls = 1"
  by (induction ls) (simp_all add: first_added_none split: option.splits)

lemma scan_lines_no_header: "\<forall>l\<in>set ls. new_start_of l = None \<Longrightarrow> scan_lines ls = 1"
  by (induction ls) simp_all

lemma scan_lines_nothing_after_headers:
  "\<forall>pre h post. ls = pre @ h # post \<longrightarrow> new_start_of h \<noteq> None \<longrightarrow> (\<forall>l\<in>set post. \<not> is_added l)
     \<Longrightarrow> scan_lines ls = 1"
proof (induction ls)
  case Nil
  show ?case by simp
next
  case (Cons x xs)
  have later: "\<forall>pre h post. xs = pre @ h # post \<longrightarrow> new_start_of h \<noteq> None
                 \<longrightarrow> (\<forall>l\<in>set post. \<not> is_added l)"
  proof (intro allI impI)
    fix pre h post
    assume "xs = pre @ h # post" and "new_start_of h \<noteq> None"
    then have "x # xs = (x # pre) @ h # post" and "new_start_of h \<noteq> None" by simp_all
    with Cons.prems show "\<forall>l\<in>set post. \<not> is_added l" by blast
  qed
  then have rest: "scan_lines xs = 1" by (rule Cons.IH)
  show ?case
  proof (cases "new_start_of x")
    case None
    with rest show ?thesis by simp
  next
    case (Some c)
    have "x # xs = [] @ x # xs" by simp
    with Cons.prems Some have "\<forall>l\<in>set xs. \<not> is_added l" by blast
    then have "first_added xs 1 = None" by (rule first_added_none)
    with Some rest show ?thesis by simp
  qed
qed

lemma no_match_no_start:
  "\<not> startswith line ''@@'' \<or> re_match hunk_re line = None \<Longrightarrow> new_start_of line = None"
  by (auto simp: new_start_of_def)

subsection \<open>The first added line after the first header\<close>

text \<open>
  Claim C1. Let the lines of the patch be \<open>pre\<close>, then a line \<open>header\<close> of the exact form
  whose third number is \<open>c\<close>, then \<open>mid\<close>, then a line \<open>added\<close> that starts with \<open>+\<close> and
  not with \<open>+++\<close>, then \<open>post\<close>, where no line of \<open>pre\<close> has the exact form and no line of
  \<open>mid\<close> is such an added line. Then \<open>added\<close> is line \<open>j = length mid + 1\<close> of the scan
  after the header and the function returns \<open>c + j - 1\<close>. For the header
  \<open>@@ -10,5 +20,6 @@\<close>, one context line and the line \<open>+foo\<close> it returns 21.
\<close>

theorem get_file_line_first_added:
  assumes "splitlines diff = pre @ header # mid @ added # post"
    and "\<forall>l\<in>set pre. new_start_of l = None"
    and "new_start_of header = Some c"
    and "\<forall>l\<in>set mid. \<not> is_added l"
    and "is_added added"
  shows "get_file_line_from_diff diff = c + (int (length mid) + 1) - 1
         \<and> get_file_line_from_diff ''@@ -10,5 +20,6 @@\<newline> context\<newline>+foo'' = 21"
proof
  have "scan_lines (pre @ header # mid @ added # post) = scan_lines (header # mid @ added # post)"
    using assms(2) by (rule scan_lines_skip)
  moreover have "first_added (mid @ added # post) 1 = Some (1 + int (length mid))"
    using assms(4,5) by (rule first_added_found)
  ultimately show "get_file_line_from_diff diff = c + (int (length mid) + 1) - 1"
    using assms(1,3) by (simp add: get_file_line_from_diff_def)
next
  show "get_file_line_from_diff ''@@ -10,5 +20,6 @@\<newline> context\<newline>+foo'' = 21"
    by code_simp
qed

theorem get_file_line_first_added_witness:
  "splitlines ''diff --git a/f b/f\<newline>@@ -10,5 +20,6 @@ def f():\<newline> context\<newline>-old\<newline>+foo\<newline>+bar''
     = [''diff --git a/f b/f''] @ ''@@ -10,5 +20,6 @@ def f():'' # ['' context'', ''-old'']
         @ ''+foo'' # [''+bar'']
   \<and> new_start_of ''@@ -10,5 +20,6 @@ def f():'' = Some 20
   \<and> get_file_line_from_diff
        ''diff --git a/f b/f\<newline>@@ -10,5 +20,6 @@ def f():\<newline> context\<newline>-old\<newline>+foo\<newline>+bar'' = 22"
proof -
  let ?d = "''diff --git a/f b/f\<newline>@@ -10,5 +20,6 @@ def f():\<newline> context\<newline>-old\<newline>+foo\<newline>+bar''"
  have sp: "splitlines ?d
     = [''diff --git a/f b/f''] @ ''@@ -10,5 +20,6 @@ def f():'' # ['' context'', ''-old'']
         @ ''+foo'' # [''+bar'']"
    by code_simp
  have pre: "\<forall>l\<in>set [''diff --git a/f b/f'']. new_start_of l = None" by code_simp
  have hd: "new_start_of ''@@ -10,5 +20,6 @@ def f():'' = Some 20" by code_simp
  have mid: "\<forall>l\<in>set ['' context'', ''-old'']. \<not> is_added l" by code_simp
  have add: "is_added ''+foo''" by code_simp
  from get_file_line_first_added [OF sp pre hd mid add] sp hd show ?thesis by simp
qed

subsection \<open>A first hunk without an added line\<close>

text \<open>
  Claim C2 says that a patch whose first hunk has no line starting with \<open>+\<close> gives 1
  whatever the later hunks hold. The inner loop runs over all of \<open>lines[i+1:]\<close>, to the
  end of the patch: in the patch below the first hunk is a context line and a removed
  line, the second hunk has the added line \<open>+d\<close> as fifth line after the first header,
  and the result is \<open>1 + 5 - 1 = 5\<close>.
\<close>

theorem first_hunk_without_added_counterexample:
  "first_hunk (splitlines ''@@ -1,2 +1,1 @@\<newline> a\<newline>-b\<newline>@@ -10,2 +10,3 @@\<newline> c\<newline>+d'')
     = ['' a'', ''-b'']
   \<and> \<not> startswith '' a'' ''+'' \<and> \<not> startswith ''-b'' ''+''
   \<and> get_file_line_from_diff
        ''@@ -1,2 +1,1 @@\<newline> a\<newline>-b\<newline>@@ -10,2 +10,3 @@\<newline> c\<newline>+d'' = 5"
  by code_simp

text \<open>
  Claim C2 as amended. When no line after the first header of the exact form, up to the
  end of the patch and so the lines of later hunks included, starts with \<open>+\<close> without
  starting with \<open>+++\<close>, the function returns 1.
\<close>

theorem no_added_after_first_header:
  assumes "splitlines diff = pre @ header # post"
    and "\<forall>l\<in>set pre. new_start_of l = None"
    and "new_start_of header \<noteq> None"
    and "\<forall>l\<in>set post. \<not> is_added l"
  shows "get_file_line_from_diff diff = 1"
proof -
  have "scan_lines (pre @ header # post) = scan_lines (header # post)"
    using assms(2) by (rule scan_lines_skip)
  moreover have "first_added post 1 = None"
    using assms(4) by (rule first_added_none)
  moreover have "scan_lines post = 1"
    using assms(4) by (rule scan_lines_no_added)
  ultimately show ?thesis
    using assms(1,3) by (auto simp: get_file_line_from_diff_def)
qed

theorem no_added_after_first_header_witness:
  "new_start_of ''@@ -1,2 +1,1 @@'' \<noteq> None
   \<and> get_file_line_from_diff ''index 1..2\<newline>@@ -1,2 +1,1 @@\<newline> a\<newline>-b\<newline>@@ -9,2 +8,1 @@\<newline>-c\<newline>+++'' = 1"
proof -
  let ?d = "''index 1..2\<newline>@@ -1,2 +1,1 @@\<newline> a\<newline>-b\<newline>@@ -9,2 +8,1 @@\<newline>-c\<newline>+++''"
  have sp: "splitlines ?d
     = [''index 1..2''] @ ''@@ -1,2 +1,1 @@'' # ['' a'', ''-b'', ''@@ -9,2 +8,1 @@'', ''-c'', ''+++'']"
    by code_simp
  have pre: "\<forall>l\<in>set [''index 1..2'']. new_start_of l = None" by code_simp
  have hd: "new_start_of ''@@ -1,2 +1,1 @@'' \<noteq> None" by code_simp
  have post: "\<forall>l\<in>set ['' a'', ''-b'', ''@@ -9,2 +8,1 @@'', ''-c'', ''+++'']. \<not> is_added l"
    by code_simp
  from no_added_after_first_header [OF sp pre hd post] hd show ?thesis by simp
qed

subsection \<open>The default\<close>

text \<open>
  Claim C4. A patch none of whose lines is a header of the exact form gives 1, and so
  does a patch in which no line that follows a header of the exact form starts with \<open>+\<close>
  without starting with \<open>+++\<close>.
\<close>

theorem get_file_line_default:
  assumes "(\<forall>l\<in>set (splitlines diff). new_start_of l = None)
         \<or> (\<forall>pre h post. splitlines diff = pre @ h # post \<longrightarrow> new_start_of h \<noteq> None
               \<longrightarrow> (\<forall>l\<in>set post. \<not> is_added l))"
  shows "get_file_line_from_diff diff = 1"
  using assms
  by (auto simp: get_file_line_from_diff_def
           intro: scan_lines_no_header scan_lines_nothing_after_headers)

theorem get_file_line_default_witness:
  "splitlines ''--- a/f\<newline>+++ b/f\<newline>+x'' = [''--- a/f'', ''+++ b/f'', ''+x'']
   \<and> new_start_of ''--- a/f'' = None \<and> new_start_of ''+++ b/f'' = None
   \<and> new_start_of ''+x'' = None
   \<and> get_file_line_from_diff ''--- a/f\<newline>+++ b/f\<newline>+x'' = 1
   \<and> new_start_of ''@@ -4,2 +4,1 @@'' \<noteq> None
   \<and> get_file_line_from_diff ''@@ -4,2 +4,1 @@\<newline> a\<newline>-b'' = 1"
proof -
  have none: "\<forall>l\<in>set (splitlines ''--- a/f\<newline>+++ b/f\<newline>+x''). new_start_of l = None"
    by code_simp
  have one: "get_file_line_from_diff ''--- a/f\<newline>+++ b/f\<newline>+x'' = 1"
    using get_file_line_default [of "''--- a/f\<newline>+++ b/f\<newline>+x''"] none by blast
  have sp: "splitlines ''@@ -4,2 +4,1 @@\<newline> a\<newline>-b'' = [''@@ -4,2 +4,1 @@'', '' a'', ''-b'']"
    by code_simp
  have quiet: "\<forall>l\<in>set [''@@ -4,2 +4,1 @@'', '' a'', ''-b'']. \<not> is_added l" by code_simp
  have after: "\<forall>pre h post. splitlines ''@@ -4,2 +4,1 @@\<newline> a\<newline>-b'' = pre @ h # post
                 \<longrightarrow> new_start_of h \<noteq> None \<longrightarrow> (\<forall>l\<in>set post. \<not> is_added l)"
  proof (intro allI impI ballI)
    fix pre h post l
    assume eq: "splitlines ''@@ -4,2 +4,1 @@\<newline> a\<newline>-b'' = pre @ h # post"
      and l: "l \<in> set post"
    from l have "l \<in> set (pre @ h # post)" by simp
    with eq sp have "l \<in> set [''@@ -4,2 +4,1 @@'', '' a'', ''-b'']" by simp
    with quiet show "\<not> is_added l" by blast
  qed
  have two: "get_file_line_from_diff ''@@ -4,2 +4,1 @@\<newline> a\<newline>-b'' = 1"
    using get_file_line_default [of "''@@ -4,2 +4,1 @@\<newline> a\<newline>-b''"] after by blast
  have hd: "new_start_of ''@@ -4,2 +4,1 @@'' \<noteq> None" by code_simp
  have lines: "splitlines ''--- a/f\<newline>+++ b/f\<newline>+x'' = [''--- a/f'', ''+++ b/f'', ''+x'']"
    by code_simp
  from none lines have "new_start_of ''--- a/f'' = None \<and> new_start_of ''+++ b/f'' = None
      \<and> new_start_of ''+x'' = None"
    by simp
  with lines one hd two show ?thesis by blast
qed

subsection \<open>Headers that are not of the exact form\<close>

text \<open>
  Claim C9. A line that starts with \<open>@@\<close> and does not match the pattern gives no start
  line, and the scan goes on with the lines after it as if the line were not a header:
  when no line before it is a header of the exact form, the function returns what the
  scan of the lines after it returns. So when the lines before a header of the exact
  form are of any kind but that form, headers with a count left out among them, the
  function returns \<open>c + j - 1\<close> for that later header. \<open>@@ -3 +3 @@\<close> is a line of the
  inexact kind, and the patch \<open>@@ -3 +3 @@\<close>, \<open>+x\<close>, \<open>@@ -1,1 +7,2 @@\<close>, \<open>+y\<close> gives 7. When no
  line starting with \<open>@@\<close> matches the pattern the function returns 1.
\<close>

theorem inexact_header_is_skipped:
  "(startswith line ''@@'' \<and> re_match hunk_re line = None
      \<longrightarrow> new_start_of line = None \<and> scan_lines (line # rest) = scan_lines rest)
   \<and> (splitlines diff = pre @ line # rest \<and> (\<forall>l\<in>set pre. new_start_of l = None)
        \<and> startswith line ''@@'' \<and> re_match hunk_re line = None
      \<longrightarrow> get_file_line_from_diff diff = scan_lines rest)
   \<and> (splitlines diff = pre @ header # mid @ added # post
        \<and> (\<forall>l\<in>set pre. startswith l ''@@'' \<longrightarrow> re_match hunk_re l = None)
        \<and> new_start_of header = Some c \<and> (\<forall>l\<in>set mid. \<not> is_added l) \<and> is_added added
      \<longrightarrow> get_file_line_from_diff diff = c + (int (length mid) + 1) - 1)
   \<and> (startswith ''@@ -3 +3 @@'' ''@@'' \<and> re_match hunk_re ''@@ -3 +3 @@'' = None)
   \<and> get_file_line_from_diff ''@@ -3 +3 @@\<newline>+x\<newline>@@ -1,1 +7,2 @@\<newline>+y'' = 7
   \<and> ((\<forall>l\<in>set (splitlines diff). startswith l ''@@'' \<longrightarrow> re_match hunk_re l = None)
      \<longrightarrow> get_file_line_from_diff diff = 1)"
proof (intro conjI impI)
  assume "startswith line ''@@'' \<and> re_match hunk_re line = None"
  then show none: "new_start_of line = None" by (simp add: no_match_no_start)
  then show "scan_lines (line # rest) = scan_lines rest" by simp
next
  assume h: "splitlines diff = pre @ line # rest \<and> (\<forall>l\<in>set pre. new_start_of l = None)
        \<and> startswith line ''@@'' \<and> re_match hunk_re line = None"
  then have "new_start_of line = None" by (simp add: no_match_no_start)
  then have "scan_lines (line # rest) = scan_lines rest" by simp
  moreover from h have "scan_lines (pre @ line # rest) = scan_lines (line # rest)"
    by (simp add: scan_lines_skip)
  ultimately show "get_file_line_from_diff diff = scan_lines rest"
    using h by (simp add: get_file_line_from_diff_def)
next
  assume h: "splitlines diff = pre @ header # mid @ added # post
        \<and> (\<forall>l\<in>set pre. startswith l ''@@'' \<longrightarrow> re_match hunk_re l = None)
        \<and> new_start_of header = Some c \<and> (\<forall>l\<in>set mid. \<not> is_added l) \<and> is_added added"
  then have "\<forall>l\<in>set pre. new_start_of l = None"
    by (auto intro: no_match_no_start)
  then have "scan_lines (pre @ header # mid @ added # post)
               = scan_lines (header # mid @ added # post)"
    by (rule scan_lines_skip)
  moreover from h have "first_added (mid @ added # post) 1 = Some (1 + int (length mid))"
    by (simp add: first_added_found)
  ultimately show "get_file_line_from_diff diff = c + (int (length mid) + 1) - 1"
    using h by (simp add: get_file_line_from_diff_def)
next
  show "startswith ''@@ -3 +3 @@'' ''@@''" by code_simp
  show "re_match hunk_re ''@@ -3 +3 @@'' = None" by code_simp
  show "get_file_line_from_diff ''@@ -3 +3 @@\<newline>+x\<newline>@@ -1,1 +7,2 @@\<newline>+y'' = 7"
    by code_simp
next
  assume "\<forall>l\<in>set (splitlines diff). startswith l ''@@'' \<longrightarrow> re_match hunk_re l = None"
  then have "\<forall>l\<in>set (splitlines diff). new_start_of l = None"
    by (auto intro: no_match_no_start)
  then show "get_file_line_from_diff diff = 1"
    by (simp add: get_file_line_from_diff_def scan_lines_no_header)
qed

theorem inexact_header_is_skipped_witness:
  "splitlines ''@@ -3 +3 @@\<newline>+x\<newline>@@ -1,1 +7,2 @@\<newline>+y''
     = [] @ ''@@ -3 +3 @@'' # [''+x'', ''@@ -1,1 +7,2 @@'', ''+y'']
   \<and> new_start_of ''@@ -3 +3 @@'' = None
   \<and> new_start_of ''@@ -1,1 +7,2 @@'' = Some 7
   \<and> get_file_line_from_diff ''@@ -3 +3 @@\<newline>+x\<newline>@@ -1,1 +7,2 @@\<newline>+y''
       = scan_lines [''+x'', ''@@ -1,1 +7,2 @@'', ''+y'']
   \<and> get_file_line_from_diff ''@@ -3 +3 @@\<newline>+x\<newline>@@ -1,1 +7,2 @@\<newline>+y''
       = 7 + (int (length ([] :: string list)) + 1) - 1
   \<and> get_file_line_from_diff ''@@ -3 +3 @@\<newline>+x\<newline>@@ -7 +7,2 @@\<newline>+y'' = 1"
proof -
  let ?d = "''@@ -3 +3 @@\<newline>+x\<newline>@@ -1,1 +7,2 @@\<newline>+y''"
  let ?rest = "[''+x'', ''@@ -1,1 +7,2 @@'', ''+y'']"
  have a: "startswith ''@@ -3 +3 @@'' ''@@'' \<and> re_match hunk_re ''@@ -3 +3 @@'' = None"
    by code_simp
  have sp: "splitlines ?d = [] @ ''@@ -3 +3 @@'' # ?rest" by code_simp
  have pre0: "\<forall>l\<in>set ([] :: string list). new_start_of l = None" by simp
  have skip: "get_file_line_from_diff ?d = scan_lines ?rest"
    using inexact_header_is_skipped
            [where diff = ?d and pre = "[]" and line = "''@@ -3 +3 @@''" and rest = ?rest]
          sp pre0 a
    by blast
  have sp2: "splitlines ?d = [''@@ -3 +3 @@'', ''+x''] @ ''@@ -1,1 +7,2 @@'' # [] @ ''+y'' # []"
    by code_simp
  have pre2: "\<forall>l\<in>set [''@@ -3 +3 @@'', ''+x'']. startswith l ''@@'' \<longrightarrow> re_match hunk_re l = None"
    by code_simp
  have hd: "new_start_of ''@@ -1,1 +7,2 @@'' = Some 7" by code_simp
  have mid: "\<forall>l\<in>set ([] :: string list). \<not> is_added l" by simp
  have add: "is_added ''+y''" by code_simp
  have later: "get_file_line_from_diff ?d = 7 + (int (length ([] :: string list)) + 1) - 1"
    using inexact_header_is_skipped
            [where diff = ?d and pre = "[''@@ -3 +3 @@'', ''+x'']"
               and header = "''@@ -1,1 +7,2 @@''" and mid = "[]" and added = "''+y''"
               and post = "[]" and c = 7]
          sp2 pre2 hd mid add
    by blast
  have b: "\<forall>l\<in>set (splitlines ''@@ -3 +3 @@\<newline>+x\<newline>@@ -7 +7,2 @@\<newline>+y'').
             startswith l ''@@'' \<longrightarrow> re_match hunk_re l = None"
    by code_simp
  have one: "get_file_line_from_diff ''@@ -3 +3 @@\<newline>+x\<newline>@@ -7 +7,2 @@\<newline>+y'' = 1"
    using inexact_header_is_skipped
            [where diff = "''@@ -3 +3 @@\<newline>+x\<newline>@@ -7 +7,2 @@\<newline>+y''"] b
    by blast
  have none: "new_start_of ''@@ -3 +3 @@'' = None" by code_simp
  from sp none hd skip later one show ?thesis by (intro conjI)
qed

section \<open>The run\<close>

subsection \<open>What the parts of a run show\<close>

lemma llm_calls_append: "llm_calls (xs @ ys) = llm_calls xs @ llm_calls ys"
  by (induction xs) (simp_all split: event.splits)

lemma comment_calls_append: "comment_calls (xs @ ys) = comment_calls xs @ comment_calls ys"
  by (induction xs) (simp_all split: event.splits)

lemma printed_append: "printed (xs @ ys) = printed xs @ printed ys"
  by (induction xs) (simp_all split: event.splits)

lemma llm_calls_reads: "llm_calls (map (\<lambda>f. GetContents (p f) r) fs) = []"
  by (induction fs) simp_all

lemma comment_calls_reads: "comment_calls (map (\<lambda>f. GetContents (p f) r) fs) = []"
  by (induction fs) simp_all

lemma llm_calls_prepare: "llm_calls (prepare a w) = []"
  by (simp add: prepare_def llm_calls_reads)

lemma comment_calls_prepare: "comment_calls (prepare a w) = []"
  by (simp add: prepare_def comment_calls_reads)

lemma content_eq: "content a w = base_content (pr w) @ ''Diffs:\<newline>'' @ diff_content a w"
  by (cases "mode a") (simp_all add: content_def)

lemma llm_calls_pr_level: "llm_calls (pr_level a w) = [(content a w, mode a)]"
  by (simp add: pr_level_def llm_calls_append llm_calls_prepare)

lemma comment_calls_pr_level: "comment_calls (pr_level a w) = []"
  by (simp add: pr_level_def comment_calls_append comment_calls_prepare)

lemma llm_calls_loop_start: "llm_calls (loop_start a w) = [(content a w, mode a)]"
  by (simp add: loop_start_def llm_calls_append llm_calls_pr_level)

lemma llm_calls_asked: "llm_calls (asked a w f tr) = llm_calls tr @ [(chunk a w f, mode a)]"
  by (simp add: asked_def llm_calls_append)

lemma comment_calls_asked: "comment_calls (asked a w f tr) = comment_calls tr"
  by (simp add: asked_def comment_calls_append)

lemma llm_calls_file_step:
  "llm_calls (file_step a w f tr)
     = llm_calls tr @ (if truthy (patch f) then [(chunk a w f, mode a)] else [])"
  by (simp add: file_step_def Let_def llm_calls_append llm_calls_asked review_comment_def
           split: option.splits)

lemma comment_calls_file_step:
  "truthy (patch f) \<Longrightarrow>
   comment_calls (file_step a w f tr)
     = comment_calls tr @
         (if file_review a w f tr \<noteq> [] \<and> \<not> str_in ''no feedback'' (lower (file_review a w f tr))
          then [review_comment a w f tr] else [])"
  by (simp add: file_step_def Let_def comment_calls_append comment_calls_asked review_comment_def
           split: option.splits)

lemma llm_calls_comments_loop:
  "llm_calls (comments_loop a w fs tr)
     = llm_calls tr @ map (\<lambda>f. (chunk a w f, mode a)) (patched fs)"
  by (induction fs arbitrary: tr) (simp_all add: llm_calls_file_step patched_def)

lemma comments_loop_append:
  "comments_loop a w (fs @ gs) tr = comments_loop a w gs (comments_loop a w fs tr)"
  by (induction fs arbitrary: tr) simp_all

lemma startswith_iff: "startswith s p \<longleftrightarrow> (\<exists>q. s = p @ q)"
  unfolding startswith_def
  by (metis append_eq_conv_conj append_take_drop_id)

lemma str_in_iff: "str_in n h \<longleftrightarrow> (\<exists>p q. h = p @ n @ q)"
proof (induction h)
  case Nil
  show ?case by auto
next
  case (Cons c cs)
  show ?case
  proof
    assume "str_in n (c # cs)"
    then consider "startswith (c # cs) n" | "str_in n cs" by auto
    then show "\<exists>p q. c # cs = p @ n @ q"
    proof cases
      case 1
      then obtain q where "c # cs = n @ q" by (auto simp: startswith_iff)
      then have "c # cs = [] @ n @ q" by simp
      then show ?thesis by blast
    next
      case 2
      with Cons.IH obtain p q where "cs = p @ n @ q" by blast
      then have "c # cs = (c # p) @ n @ q" by simp
      then show ?thesis by blast
    qed
  next
    assume "\<exists>p q. c # cs = p @ n @ q"
    then obtain p q where eq: "c # cs = p @ n @ q" by blast
    show "str_in n (c # cs)"
    proof (cases p)
      case Nil
      with eq have "startswith (c # cs) n" by (auto simp: startswith_iff)
      then show ?thesis by simp
    next
      case (Cons d p')
      with eq have "cs = p' @ n @ q" by simp
      with Cons.IH have "str_in n cs" by blast
      then show ?thesis by simp
    qed
  qed
qed

lemma str_in_lower:
  assumes "str_in s r"
  shows "str_in (lower s) (lower r)"
proof -
  from assms obtain p q where "r = p @ s @ q" by (auto simp: str_in_iff)
  then have "lower r = lower p @ lower s @ lower q" by (simp add: lower_def)
  then show ?thesis unfolding str_in_iff by blast
qed

subsection \<open>What the model is sent\<close>

text \<open>
  Claim C3 says that every content passed to \<open>generate_review\<close> is the title, the
  description and the diffs. In comments mode with an open pull request the loop over
  the files calls the model once more for each file that has a patch, with \<open>chunk\<close>,
  which is built from that file alone. In the run below the first call gets the content
  of the whole pull request and the two further calls get the bare patches of \<open>a.py\<close> and
  \<open>b.py\<close>.
\<close>

theorem model_call_contents_counterexample:
  "content (demo_args Comments) (demo_world ''open'' ''No feedback'' None)
     = ''PR Title: Fix parser\<newline>PR Description:\<newline>No description provided\<newline>\<newline>Diffs:\<newline>@@ -1,2 +1,3 @@\<newline> x\<newline>+y\<newline>----------------\<newline>@@ -5 +5 @@\<newline>-z\<newline>+w\<newline>----------------''
   \<and> map fst (llm_calls (fst (run (demo_args Comments) (Some ''t'')
                                  (demo_world ''open'' ''No feedback'' None))))
     = [''PR Title: Fix parser\<newline>PR Description:\<newline>No description provided\<newline>\<newline>Diffs:\<newline>@@ -1,2 +1,3 @@\<newline> x\<newline>+y\<newline>----------------\<newline>@@ -5 +5 @@\<newline>-z\<newline>+w\<newline>----------------'',
        ''@@ -1,2 +1,3 @@\<newline> x\<newline>+y'',
        ''@@ -5 +5 @@\<newline>-z\<newline>+w'']"
  by code_simp

text \<open>
  Claim C3 as amended. In every mode the first model call of a run gets the title, the
  description and the diffs. In comments mode with an open pull request there is one
  further call for each changed file with a non-empty patch, in the order of the files,
  and its content is the chunk of that file. A run makes no other model call.
\<close>

theorem model_call_contents:
  assumes "truthy token"
  shows "llm_calls (fst (run a token w))
           = (base_content (pr w) @ ''Diffs:\<newline>'' @ diff_content a w, mode a)
             # (if mode a = Comments \<and> state (pr w) = ''open''
                then map (\<lambda>f. (chunk a w f, Comments)) (patched (get_files (pr w)))
                else [])"
  using assms
  by (cases "mode a")
     (simp_all add: run_def llm_calls_append llm_calls_pr_level llm_calls_comments_loop
        llm_calls_loop_start content_eq)

theorem model_call_contents_witness:
  "truthy (Some ''ghp_1'')
   \<and> llm_calls (fst (run (demo_args Issues) (Some ''ghp_1'') (demo_world ''open'' ''Off by one'' None)))
       = [(''PR Title: Fix parser\<newline>PR Description:\<newline>No description provided\<newline>\<newline>Diffs:\<newline>@@ -1,2 +1,3 @@\<newline> x\<newline>+y\<newline>----------------\<newline>@@ -5 +5 @@\<newline>-z\<newline>+w\<newline>----------------'', Issues)]"
proof -
  let ?a = "demo_args Issues" and ?w = "demo_world ''open'' ''Off by one'' None"
  have tok: "truthy (Some ''ghp_1'')" by simp
  have "(base_content (pr ?w) @ ''Diffs:\<newline>'' @ diff_content ?a ?w, mode ?a)
           # (if mode ?a = Comments \<and> state (pr ?w) = ''open''
              then map (\<lambda>f. (chunk ?a ?w f, Comments)) (patched (get_files (pr ?w)))
              else [])
        = [(''PR Title: Fix parser\<newline>PR Description:\<newline>No description provided\<newline>\<newline>Diffs:\<newline>@@ -1,2 +1,3 @@\<newline> x\<newline>+y\<newline>----------------\<newline>@@ -5 +5 @@\<newline>-z\<newline>+w\<newline>----------------'', Issues)]"
    by code_simp
  with model_call_contents [OF tok, of ?a ?w] tok show ?thesis by (simp only:)
qed

subsection \<open>Comments only for feedback\<close>

text \<open>
  Claim C5. Take a run in comments mode on an open pull request, and a changed file \<open>f\<close>
  with a non-empty patch; \<open>tr\<close> is the run up to the turn of \<open>f\<close>. The run is the loop
  over the files after \<open>f\<close>, started from what the turn of \<open>f\<close> gives. That turn adds a
  comment call exactly when the review of the file is non-empty and its lower-case form
  does not contain \<open>no feedback\<close>. So when the review contains a text that is
  \<open>no feedback\<close> up to the case of its letters, the turn adds no comment call.
\<close>

theorem comment_only_for_feedback:
  assumes "mode a = Comments" and "truthy token" and "state (pr w) = ''open''"
    and "get_files (pr w) = fs @ f # gs"
    and "truthy (patch f)"
    and "tr = comments_loop a w fs (loop_start a w)"
  shows "fst (run a token w) = comments_loop a w gs (file_step a w f tr)
         \<and> comment_calls (file_step a w f tr)
             = comment_calls tr @
                 (if file_review a w f tr \<noteq> []
                     \<and> \<not> str_in ''no feedback'' (lower (file_review a w f tr))
                  then [review_comment a w f tr] else [])
         \<and> (\<forall>s. lower s = ''no feedback'' \<and> str_in s (file_review a w f tr)
               \<longrightarrow> comment_calls (file_step a w f tr) = comment_calls tr)"
proof (intro conjI allI impI)
  show "fst (run a token w) = comments_loop a w gs (file_step a w f tr)"
    using assms by (simp add: run_def comments_loop_append)
  show step: "comment_calls (file_step a w f tr)
             = comment_calls tr @
                 (if file_review a w f tr \<noteq> []
                     \<and> \<not> str_in ''no feedback'' (lower (file_review a w f tr))
                  then [review_comment a w f tr] else [])"
    using assms(5) by (rule comment_calls_file_step)
  fix s
  assume "lower s = ''no feedback'' \<and> str_in s (file_review a w f tr)"
  then have "str_in ''no feedback'' (lower (file_review a w f tr))"
    using str_in_lower [of s "file_review a w f tr"] by simp
  with step show "comment_calls (file_step a w f tr) = comment_calls tr" by simp
qed

theorem comment_only_for_feedback_witness:
  "lower ''NO FEEDBACK'' = ''no feedback''
   \<and> file_review (demo_args Comments) (demo_world ''open'' ''Looks fine. NO FEEDBACK.'' None) demo_file
        (loop_start (demo_args Comments) (demo_world ''open'' ''Looks fine. NO FEEDBACK.'' None))
       = ''Looks fine. NO FEEDBACK.''
   \<and> str_in ''NO FEEDBACK'' ''Looks fine. NO FEEDBACK.''
   \<and> comment_calls (file_step (demo_args Comments) (demo_world ''open'' ''Looks fine. NO FEEDBACK.'' None)
        demo_file (loop_start (demo_args Comments) (demo_world ''open'' ''Looks fine. NO FEEDBACK.'' None)))
       = []"
proof -
  let ?a = "demo_args Comments" and ?w = "demo_world ''open'' ''Looks fine. NO FEEDBACK.'' None"
  let ?gs = "[\<lparr>filename = ''logo.png'', patch = None\<rparr>,
              \<lparr>filename = ''b.py'', patch = Some ''@@ -5 +5 @@\<newline>-z\<newline>+w''\<rparr>]"
  have m: "mode ?a = Comments" by (simp add: demo_args_def)
  have tok: "truthy (Some ''ghp_1'')" by simp
  have st: "state (pr ?w) = ''open''" by (simp add: demo_world_def demo_pr_def)
  have fs: "get_files (pr ?w) = [] @ demo_file # ?gs" by (simp add: demo_world_def demo_pr_def)
  have pt: "truthy (patch demo_file)" by (simp add: demo_file_def demo_patch_def)
  have tr: "loop_start ?a ?w = comments_loop ?a ?w [] (loop_start ?a ?w)" by simp
  have lo: "lower ''NO FEEDBACK'' = ''no feedback''" by code_simp
  have rv: "file_review ?a ?w demo_file (loop_start ?a ?w) = ''Looks fine. NO FEEDBACK.''"
    by (simp add: file_review_def demo_world_def)
  have si: "str_in ''NO FEEDBACK'' ''Looks fine. NO FEEDBACK.''" by code_simp
  have before: "comment_calls (loop_start ?a ?w) = []" by code_simp
  from comment_only_for_feedback [OF m tok st fs pt tr]
  have "\<forall>s. lower s = ''no feedback'' \<and> str_in s (file_review ?a ?w demo_file (loop_start ?a ?w))
          \<longrightarrow> comment_calls (file_step ?a ?w demo_file (loop_start ?a ?w))
                = comment_calls (loop_start ?a ?w)"
    by blast
  with lo rv si have "comment_calls (file_step ?a ?w demo_file (loop_start ?a ?w))
                = comment_calls (loop_start ?a ?w)"
    by (metis (no_types))
  with before lo rv si show ?thesis by (simp only:)
qed

subsection \<open>A closed pull request\<close>

text \<open>
  Claim C6. In comments mode, when the state of the pull request is not \<open>open\<close>, the run
  ends after the model call for the whole pull request with the two printed lines: there
  is no comment call, the notice \<open>Comments mode: PR is closed, no comments posted.\<close> is
  printed, and the only model call is the first one.
\<close>

theorem closed_pr_posts_nothing:
  assumes "mode a = Comments" and "truthy token" and "state (pr w) \<noteq> ''open''"
  shows "fst (run a token w)
           = pr_level a w @ [Print (''Code Issues:\<newline>'' @ review_text a w),
                             Print ''Comments mode: PR is closed, no comments posted.'']
         \<and> comment_calls (fst (run a token w)) = []
         \<and> llm_calls (fst (run a token w)) = [(content a w, Comments)]"
  using assms
  by (simp add: run_def comment_calls_append comment_calls_pr_level llm_calls_append
        llm_calls_pr_level)

theorem closed_pr_posts_nothing_witness:
  "state (pr (demo_world ''closed'' ''Off by one'' None)) = ''closed''
   \<and> comment_calls (fst (run (demo_args Comments) (Some ''ghp_1'')
                            (demo_world ''closed'' ''Off by one'' None))) = []
   \<and> printed (fst (run (demo_args Comments) (Some ''ghp_1'')
                      (demo_world ''closed'' ''Off by one'' None)))
       = [''Code Issues:\<newline>Off by one'', ''Comments mode: PR is closed, no comments posted.'']"
proof -
  let ?a = "demo_args Comments" and ?w = "demo_world ''closed'' ''Off by one'' None"
  have m: "mode ?a = Comments" by (simp add: demo_args_def)
  have tok: "truthy (Some ''ghp_1'')" by simp
  have st: "state (pr ?w) = ''closed''" by (simp add: demo_world_def demo_pr_def)
  then have closed: "state (pr ?w) \<noteq> ''open''" by simp
  have p: "printed (fst (run ?a (Some ''ghp_1'') ?w))
       = [''Code Issues:\<newline>Off by one'', ''Comments mode: PR is closed, no comments posted.'']"
    by code_simp
  from closed_pr_posts_nothing [OF m tok closed]
  have cc: "comment_calls (fst (run ?a (Some ''ghp_1'') ?w)) = []" by (rule conjunct1 [OF conjunct2])
  from st cc p show ?thesis by (simp only: simp_thms)
qed

subsection \<open>A comment that cannot be posted\<close>

text \<open>
  Claim C7. In the setting of claim C5, let the review of \<open>f\<close> ask for a comment and let
  the comment call raise an exception with message \<open>msg\<close>. Then the turn of \<open>f\<close> ends
  with a printed line that holds the file name and \<open>msg\<close>, the run goes on with the loop
  over the remaining files and ends normally, and every remaining file with a patch
  gets its model call.
\<close>

theorem comment_error_is_caught:
  assumes "mode a = Comments" and "truthy token" and "state (pr w) = ''open''"
    and "get_files (pr w) = fs @ f # gs"
    and "truthy (patch f)"
    and "tr = comments_loop a w fs (loop_start a w)"
    and "file_review a w f tr \<noteq> []"
    and "\<not> str_in ''no feedback'' (lower (file_review a w f tr))"
    and "create_review_comment w (asked a w f tr @ [review_comment a w f tr]) = Some msg"
  shows "file_step a w f tr
           = asked a w f tr @ [review_comment a w f tr,
                               Print (''Error posting comment on '' @ filename f @ '': '' @ msg)]
         \<and> run a token w = (comments_loop a w gs (file_step a w f tr), Exit_ok)
         \<and> llm_calls (fst (run a token w))
             = llm_calls (file_step a w f tr) @ map (\<lambda>g. (chunk a w g, Comments)) (patched gs)"
proof (intro conjI)
  show "file_step a w f tr
           = asked a w f tr @ [review_comment a w f tr,
                               Print (''Error posting comment on '' @ filename f @ '': '' @ msg)]"
    using assms(5,7,8,9) by (simp add: file_step_def)
  show r: "run a token w = (comments_loop a w gs (file_step a w f tr), Exit_ok)"
    using assms(1,2,3,4,6) by (simp add: run_def comments_loop_append)
  show "llm_calls (fst (run a token w))
             = llm_calls (file_step a w f tr) @ map (\<lambda>g. (chunk a w g, Comments)) (patched gs)"
    using assms(1) by (simp add: r llm_calls_comments_loop)
qed

theorem comment_error_is_caught_witness:
  "create_review_comment (demo_world ''open'' ''Off by one'' (Some ''403 Forbidden''))
       (asked (demo_args Comments) (demo_world ''open'' ''Off by one'' (Some ''403 Forbidden'')) demo_file
          (loop_start (demo_args Comments) (demo_world ''open'' ''Off by one'' (Some ''403 Forbidden'')))
        @ [review_comment (demo_args Comments) (demo_world ''open'' ''Off by one'' (Some ''403 Forbidden''))
             demo_file
             (loop_start (demo_args Comments) (demo_world ''open'' ''Off by one'' (Some ''403 Forbidden'')))])
     = Some ''403 Forbidden''
   \<and> snd (run (demo_args Comments) (Some ''ghp_1'')
             (demo_world ''open'' ''Off by one'' (Some ''403 Forbidden''))) = Exit_ok
   \<and> printed (fst (run (demo_args Comments) (Some ''ghp_1'')
                      (demo_world ''open'' ''Off by one'' (Some ''403 Forbidden''))))
       = [''Code Issues:\<newline>Off by one'',
          ''Error posting comment on a.py: 403 Forbidden'',
          ''Error posting comment on b.py: 403 Forbidden'']"
proof -
  let ?a = "demo_args Comments" and ?w = "demo_world ''open'' ''Off by one'' (Some ''403 Forbidden'')"
  let ?gs = "[\<lparr>filename = ''logo.png'', patch = None\<rparr>,
              \<lparr>filename = ''b.py'', patch = Some ''@@ -5 +5 @@\<newline>-z\<newline>+w''\<rparr>]"
  let ?tr = "loop_start ?a ?w"
  have m: "mode ?a = Comments" by (simp add: demo_args_def)
  have tok: "truthy (Some ''ghp_1'')" by simp
  have st: "state (pr ?w) = ''open''" by (simp add: demo_world_def demo_pr_def)
  have fs: "get_files (pr ?w) = [] @ demo_file # ?gs" by (simp add: demo_world_def demo_pr_def)
  have pt: "truthy (patch demo_file)" by (simp add: demo_file_def demo_patch_def)
  have tr: "?tr = comments_loop ?a ?w [] ?tr" by simp
  have r1: "file_review ?a ?w demo_file ?tr \<noteq> []" by (simp add: file_review_def demo_world_def)
  have r2: "\<not> str_in ''no feedback'' (lower (file_review ?a ?w demo_file ?tr))" by code_simp
  have cr: "create_review_comment ?w (asked ?a ?w demo_file ?tr @ [review_comment ?a ?w demo_file ?tr])
              = Some ''403 Forbidden''"
    by (simp add: demo_world_def)
  have pr: "printed (comments_loop ?a ?w ?gs (file_step ?a ?w demo_file ?tr))
       = [''Code Issues:\<newline>Off by one'',
          ''Error posting comment on a.py: 403 Forbidden'',
          ''Error posting comment on b.py: 403 Forbidden'']"
    by code_simp
  from comment_error_is_caught [OF m tok st fs pt tr r1 r2 cr]
  have "run ?a (Some ''ghp_1'') ?w = (comments_loop ?a ?w ?gs (file_step ?a ?w demo_file ?tr), Exit_ok)"
    by blast
  with pr cr show ?thesis by (simp only: fst_conv snd_conv simp_thms)
qed

subsection \<open>The token\<close>

text \<open>
  Claim C8. Without \<open>GITHUB_TOKEN\<close> the run raises \<open>ValueError\<close> with the message
  \<open>GITHUB_TOKEN environment variable is required\<close>, which ends the process with a
  status other than 0, and no call to GitHub or to the model has been made: the run has
  no event.
\<close>

theorem missing_token_aborts:
  "run a None w = ([], Uncaught ''ValueError'' ''GITHUB_TOKEN environment variable is required'')
   \<and> exit_code (snd (run a None w)) \<noteq> 0"
  by (simp add: run_def)

theorem missing_token_aborts_witness:
  "run (demo_args Comments) None (demo_world ''open'' ''Off by one'' None)
     = ([], Uncaught ''ValueError'' ''GITHUB_TOKEN environment variable is required'')"
  using missing_token_aborts [of "demo_args Comments" "demo_world ''open'' ''Off by one'' None"]
  by (rule conjunct1)

subsection \<open>Title and description\<close>

text \<open>
  Claim C10. A title that is missing or empty is replaced by \<open>No title provided\<close>, a
  description that is missing or empty by \<open>No description provided\<close>; otherwise they
  are used as they are. The base content is built from the two, and the first model call
  of every run gets the base content followed by the diffs.
\<close>

theorem placeholders_for_missing_title_and_body:
  "(\<not> truthy (title p) \<longrightarrow> pr_title p = ''No title provided'')
   \<and> (\<not> truthy (body p) \<longrightarrow> pr_description p = ''No description provided'')
   \<and> (truthy (title p) \<longrightarrow> title p = Some (pr_title p))
   \<and> (truthy (body p) \<longrightarrow> body p = Some (pr_description p))
   \<and> base_content p
       = ''PR Title: '' @ pr_title p @ ''\<newline>PR Description:\<newline>'' @ pr_description p
           @ ''\<newline>\<newline>''
   \<and> (truthy token \<longrightarrow>
        (\<exists>more. llm_calls (fst (run a token w))
                  = (base_content (pr w) @ ''Diffs:\<newline>'' @ diff_content a w, mode a) # more))"
proof (intro conjI impI)
  show "\<not> truthy (title p) \<Longrightarrow> pr_title p = ''No title provided''"
    by (cases "title p") (simp_all add: pr_title_def py_or_def)
  show "\<not> truthy (body p) \<Longrightarrow> pr_description p = ''No description provided''"
    by (cases "body p") (simp_all add: pr_description_def py_or_def)
  show "truthy (title p) \<Longrightarrow> title p = Some (pr_title p)"
    by (cases "title p") (simp_all add: pr_title_def py_or_def)
  show "truthy (body p) \<Longrightarrow> body p = Some (pr_description p)"
    by (cases "body p") (simp_all add: pr_description_def py_or_def)
  show "base_content p
       = ''PR Title: '' @ pr_title p @ ''\<newline>PR Description:\<newline>'' @ pr_description p
           @ ''\<newline>\<newline>''"
    by (simp add: base_content_def)
  assume "truthy token"
  then show "\<exists>more. llm_calls (fst (run a token w))
                  = (base_content (pr w) @ ''Diffs:\<newline>'' @ diff_content a w, mode a) # more"
    by (cases "mode a")
       (simp_all add: run_def llm_calls_append llm_calls_pr_level llm_calls_comments_loop
          llm_calls_loop_start content_eq)
qed

theorem placeholders_for_missing_title_and_body_witness:
  "\<not> truthy (title ((demo_pr ''open'')\<lparr>title := Some []\<rparr>))
   \<and> \<not> truthy (body ((demo_pr ''open'')\<lparr>title := Some []\<rparr>))
   \<and> base_content ((demo_pr ''open'')\<lparr>title := Some []\<rparr>)
       = ''PR Title: No title provided\<newline>PR Description:\<newline>No description provided\<newline>\<newline>''"
proof -
  let ?p = "(demo_pr ''open'')\<lparr>title := Some []\<rparr>"
  have t: "\<not> truthy (title ?p)" by (simp add: demo_pr_def)
  have b: "\<not> truthy (body ?p)" by (simp add: demo_pr_def)
  from placeholders_for_missing_title_and_body [of ?p] t b
  have "pr_title ?p = ''No title provided''" and "pr_description ?p = ''No description provided''"
    and "base_content ?p
       = ''PR Title: '' @ pr_title ?p @ ''\<newline>PR Description:\<newline>'' @ pr_description ?p
           @ ''\<newline>\<newline>''"
    by blast+
  then have "base_content ?p
       = ''PR Title: No title provided\<newline>PR Description:\<newline>No description provided\<newline>\<newline>''"
    by simp
  with t b show ?thesis by (simp only: simp_thms)
qed

end
